theory Spec2Isabelle
  imports Main
begin

section \<open>Data of the authentication core\<close>

text \<open>
  A row of the \<^verbatim>\<open>users\<close> table that \<^verbatim>\<open>index.js\<close> creates:
  \<^verbatim>\<open>id INTEGER PRIMARY KEY AUTOINCREMENT, username TEXT NOT NULL UNIQUE, password TEXT NOT NULL\<close>.
  The column \<^verbatim>\<open>id\<close> is called \<open>user_id\<close> here, the name \<open>id\<close> being HOL's identity.
\<close>

record user =
  user_id :: int
  username :: string
  password :: string

text \<open>
  The session object \<^verbatim>\<open>req.session\<close>. The only property the sources write or read is
  \<^verbatim>\<open>userId\<close>: \<open>None\<close> is JavaScript's \<^verbatim>\<open>undefined\<close>.
\<close>

record session =
  userId :: "int option"

definition empty_session :: session where
  "empty_session = \<lparr>userId = None\<rparr>"

text \<open>
  What a handler does to \<^verbatim>\<open>res\<close>. \<^verbatim>\<open>res.render(view, locals)\<close> is \<open>Render\<close> with the
  locals as pairs (\<^verbatim>\<open>null\<close> is \<open>None\<close>); \<^verbatim>\<open>res.redirect(path)\<close> is \<open>Redirect\<close> with the
  status, which Express sets to 302 when the call gives none.
\<close>

datatype response =
  Render string "(string \<times> string option) list"
| Redirect nat string

definition res_redirect :: "string \<Rightarrow> response" where
  "res_redirect path = Redirect 302 path"

text \<open>
  Everything observable of one handler run: the response sent (\<open>None\<close> when the handler
  ends without calling \<^verbatim>\<open>res.render\<close> or \<^verbatim>\<open>res.redirect\<close>), the cookies cleared with
  \<^verbatim>\<open>res.clearCookie\<close>, and the lines written with \<^verbatim>\<open>console.error\<close>.
\<close>

record outcome =
  sent :: "response option"
  cleared :: "string list"
  console :: "string list"

definition responds :: "response \<Rightarrow> outcome" where
  "responds r = \<lparr>sent = Some r, cleared = [], console = []\<rparr>"

definition logs_only :: "string \<Rightarrow> outcome" where
  "logs_only msg = \<lparr>sent = None, cleared = [], console = [msg]\<rparr>"

text \<open>
  The libraries the handlers call are not part of the sources; what they pass to the
  callbacks is a parameter of the model. \<open>bcrypt_hash data rounds\<close> and
  \<open>bcrypt_compare data encrypted\<close> give what \<^verbatim>\<open>bcrypt.hash\<close> and \<^verbatim>\<open>bcrypt.compare\<close> hand to
  \<^verbatim>\<open>(err, value)\<close>: \<open>Inl\<close> the error's message, \<open>Inr\<close> the value. \<open>fault\<close> is a failure of
  the database itself (file locked, disk error), reported to the callback of
  \<^verbatim>\<open>db.run\<close> or \<^verbatim>\<open>db.get\<close> as \<^verbatim>\<open>err\<close>.
\<close>

record externals =
  bcrypt_hash :: "string \<Rightarrow> nat \<Rightarrow> string + string"
  bcrypt_compare :: "string \<Rightarrow> string \<Rightarrow> string + bool"
  fault :: "string option"

section \<open>The users table\<close>

text \<open>
  \<^verbatim>\<open>AUTOINCREMENT\<close>: a new row gets an id one larger than the largest id the table has
  held, 1 in a table that never held a row. No operation of the sources deletes a user,
  so the largest id ever held is the largest id present.
\<close>

definition next_id :: "user list \<Rightarrow> int" where
  "next_id tbl = fold max (map user_id tbl) 0 + 1"

definition unique_failed :: string where
  "unique_failed = ''SQLITE_CONSTRAINT: UNIQUE constraint failed: users.username''"

text \<open>
  \<^verbatim>\<open>db.run(`INSERT INTO users (username, password) VALUES (?, ?)`, [username, hash], cb)\<close>:
  the error handed to \<^verbatim>\<open>cb\<close> and the table afterwards. The \<^verbatim>\<open>UNIQUE\<close> constraint on
  \<^verbatim>\<open>username\<close> makes the insert of a name already present fail and leave the table as it
  was. Both values are strings, so \<^verbatim>\<open>NOT NULL\<close> holds.
\<close>

definition db_run_insert ::
  "string option \<Rightarrow> user list \<Rightarrow> string \<Rightarrow> string \<Rightarrow> string option \<times> user list" where
  "db_run_insert flt tbl name hash =
     (case flt of
        Some e \<Rightarrow> (Some e, tbl)
      | None \<Rightarrow>
          if list_ex (\<lambda>u. username u = name) tbl then (Some unique_failed, tbl)
          else (None, tbl @ [\<lparr>user_id = next_id tbl, username = name, password = hash\<rparr>]))"

text \<open>
  \<^verbatim>\<open>db.get(`SELECT * FROM users WHERE username = ?`, [username], cb)\<close>: \<open>Inl\<close> the error, or
  \<open>Inr\<close> the first matching row (\<open>None\<close> is \<^verbatim>\<open>undefined\<close>, no row). The comparison is
  SQLite's default one: exact and case-sensitive.
\<close>

definition db_get :: "string option \<Rightarrow> user list \<Rightarrow> string \<Rightarrow> string + user option" where
  "db_get flt tbl name =
     (case flt of
        Some e \<Rightarrow> Inl e
      | None \<Rightarrow> Inr (find (\<lambda>u. username u = name) tbl))"

section \<open>The handlers of routes/auth.js\<close>

definition saltRounds :: nat where
  "saltRounds = 10"

definition get_register :: response where
  "get_register = Render ''register'' []"

definition get_login :: response where
  "get_login = Render ''login'' [(''error'', None)]"

text \<open>
  \<^verbatim>\<open>router.post('/register')\<close>. The password goes to \<^verbatim>\<open>bcrypt.hash\<close>; on its error the
  handler logs and returns; otherwise the row is inserted; on the insert's error the
  handler logs and returns; otherwise it redirects to \<^verbatim>\<open>/login\<close>. Result: the table and
  the outcome.
\<close>

definition post_register ::
  "externals \<Rightarrow> user list \<Rightarrow> string \<Rightarrow> string \<Rightarrow> user list \<times> outcome" where
  "post_register ext tbl uname pw =
     (case bcrypt_hash ext pw saltRounds of
        Inl e \<Rightarrow> (tbl, logs_only e)
      | Inr hash \<Rightarrow>
          (case db_run_insert (fault ext) tbl uname hash of
             (Some e, tbl') \<Rightarrow> (tbl', logs_only e)
           | (None, tbl') \<Rightarrow> (tbl', responds (res_redirect ''/login''))))"

text \<open>
  The tables the code can build. \<^verbatim>\<open>CREATE TABLE IF NOT EXISTS users\<close> gives the empty
  table, and the only statement that writes to it is the \<^verbatim>\<open>INSERT\<close> of
  \<^verbatim>\<open>router.post('/register')\<close>: \<open>registrations reqs tbl\<close> is the table after the register
  requests \<open>reqs\<close>, each with what the libraries did during it, its username and its
  password.
\<close>

fun registrations :: "(externals \<times> string \<times> string) list \<Rightarrow> user list \<Rightarrow> user list" where
  "registrations [] tbl = tbl"
| "registrations ((ext, uname, pw) # reqs) tbl =
     registrations reqs (fst (post_register ext tbl uname pw))"

definition invalid_credentials :: response where
  "invalid_credentials = Render ''login'' [(''error'', Some ''Invalid username or password'')]"

text \<open>
  \<^verbatim>\<open>if (result)\<close> in the callback of \<^verbatim>\<open>bcrypt.compare\<close>: on an error \<^verbatim>\<open>result\<close> is
  \<^verbatim>\<open>undefined\<close>, which is falsy, and the error itself is not looked at.
\<close>

definition result_truthy :: "string + bool \<Rightarrow> bool" where
  "result_truthy r = (case r of Inl e \<Rightarrow> False | Inr b \<Rightarrow> b)"

text \<open>
  \<^verbatim>\<open>router.post('/login')\<close>. Result: the session object of the request afterwards and the
  outcome.
\<close>

definition post_login ::
  "externals \<Rightarrow> user list \<Rightarrow> session \<Rightarrow> string \<Rightarrow> string \<Rightarrow> session \<times> outcome" where
  "post_login ext tbl sess uname pw =
     (case db_get (fault ext) tbl uname of
        Inl e \<Rightarrow> (sess, logs_only e)
      | Inr None \<Rightarrow> (sess, responds invalid_credentials)
      | Inr (Some usr) \<Rightarrow>
          if result_truthy (bcrypt_compare ext pw (password usr))
          then (sess\<lparr>userId := Some (user_id usr)\<rparr>, responds (res_redirect ''/''))
          else (sess, responds invalid_credentials))"

section \<open>The session layer\<close>

text \<open>
  \<^verbatim>\<open>index.js\<close> installs \<^verbatim>\<open>express-session\<close> without a \<^verbatim>\<open>store\<close> option, so the sessions
  live in the library's in-process map from session id (the token of the cookie
  \<^verbatim>\<open>connect.sid\<close>) to session object. The library is not part of the sources.
\<close>

type_synonym sid = string
type_synonym session_store = "sid \<rightharpoonup> session"

text \<open>
  Modelled from the spec: the lookup of the Session Manager (express-session, absent from
  the sources), which attaches to a request the session stored for its token, and a new,
  empty session when the token is absent or unknown.
\<close>

definition session_load :: "session_store \<Rightarrow> sid option \<Rightarrow> session" where
  "session_load store cookie =
     (case cookie of
        None \<Rightarrow> empty_session
      | Some t \<Rightarrow> (case store t of None \<Rightarrow> empty_session | Some s \<Rightarrow> s))"

text \<open>
  Modelled from the spec: the Session Manager (express-session, absent from the sources)
  stores the session object a handler has written to under the request's token.
\<close>

definition session_save :: "session_store \<Rightarrow> sid \<Rightarrow> session \<Rightarrow> session_store" where
  "session_save store t s = store(t \<mapsto> s)"

text \<open>
  Modelled from the spec: \<^verbatim>\<open>destroy\<close> of the Session Manager (\<^verbatim>\<open>req.session.destroy\<close> of
  express-session, absent from the sources): "idempotent removal; destroying an
  already-absent token is not an error". \<open>flt\<close> is a failure of the store itself, handed to
  the callback as \<^verbatim>\<open>err\<close>; the in-process store has none.
\<close>

definition session_destroy ::
  "string option \<Rightarrow> session_store \<Rightarrow> sid \<Rightarrow> string option \<times> session_store" where
  "session_destroy flt store t =
     (case flt of
        Some e \<Rightarrow> (Some e, store)
      | None \<Rightarrow> (None, store(t := None)))"

text \<open>
  \<^verbatim>\<open>router.get('/logout')\<close>: on an error of \<^verbatim>\<open>destroy\<close> a redirect to \<^verbatim>\<open>/\<close>; otherwise the
  cookie \<^verbatim>\<open>connect.sid\<close> is cleared and the redirect goes to \<^verbatim>\<open>/login\<close>.
\<close>

definition get_logout ::
  "string option \<Rightarrow> session_store \<Rightarrow> sid \<Rightarrow> session_store \<times> outcome" where
  "get_logout flt store t =
     (case session_destroy flt store t of
        (Some e, store') \<Rightarrow> (store', responds (res_redirect ''/''))
      | (None, store') \<Rightarrow>
          (store', \<lparr>sent = Some (res_redirect ''/login''), cleared = [''connect.sid''],
                    console = []\<rparr>))"

section \<open>The guards of index.js\<close>

text \<open>
  The truth value JavaScript gives \<^verbatim>\<open>req.session && req.session.userId\<close>: false for an
  absent session object, for an \<^verbatim>\<open>undefined\<close> \<^verbatim>\<open>userId\<close> and for the number 0.
\<close>

definition logged_in :: "session option \<Rightarrow> bool" where
  "logged_in so =
     (case so of
        None \<Rightarrow> False
      | Some s \<Rightarrow> (case userId s of None \<Rightarrow> False | Some n \<Rightarrow> n \<noteq> 0))"

text \<open>
  The middleware that sets \<^verbatim>\<open>res.locals.user\<close>: \<open>Some n\<close> is \<^verbatim>\<open>{ id: n }\<close>, \<open>None\<close> is
  \<^verbatim>\<open>null\<close>.
\<close>

definition locals_user :: "session option \<Rightarrow> int option" where
  "locals_user so =
     (if logged_in so then (case so of None \<Rightarrow> None | Some s \<Rightarrow> userId s) else None)"

text \<open>\<^verbatim>\<open>requireLogin\<close>: \<open>Next\<close> is \<^verbatim>\<open>next()\<close>, \<open>Respond\<close> a response sent by the guard.\<close>

datatype step = Next | Respond response

definition requireLogin :: "session option \<Rightarrow> step" where
  "requireLogin so = (if logged_in so then Next else Respond (res_redirect ''/login''))"

text \<open>
  What the middleware yields for a request carrying the cookie \<open>cookie\<close>: the session is
  looked up by the session layer, then read by \<open>locals_user\<close>.
\<close>

definition resolve :: "session_store \<Rightarrow> sid option \<Rightarrow> int option" where
  "resolve store cookie = locals_user (Some (session_load store cookie))"

section \<open>Stand-ins for the hasher, for evaluation at concrete inputs\<close>

text \<open>
  A deterministic hasher and its comparison, used only where a handler is evaluated at a
  concrete request: any pair of functions can take the place of the library.
\<close>

definition toy_hash :: "string \<Rightarrow> nat \<Rightarrow> string + string" where
  "toy_hash data rounds = Inr (''$toy$'' @ data)"

definition toy_compare :: "string \<Rightarrow> string \<Rightarrow> string + bool" where
  "toy_compare data encrypted = Inr (encrypted = ''$toy$'' @ data)"

definition toy :: externals where
  "toy = \<lparr>bcrypt_hash = toy_hash, bcrypt_compare = toy_compare, fault = None\<rparr>"

definition alice :: user where
  "alice = \<lparr>user_id = 1, username = ''alice'', password = ''$toy$secret123''\<rparr>"

section \<open>Properties\<close>

lemma fold_max_nonneg: "(0::int) \<le> a \<Longrightarrow> 0 \<le> fold max xs a"
  by (induction xs arbitrary: a) auto

lemma next_id_positive: "0 < next_id tbl"
  using fold_max_nonneg [of 0 "map user_id tbl"] by (simp add: next_id_def)

lemma post_register_ids_positive:
  assumes "\<forall>u \<in> set tbl. 0 < user_id u"
  shows "\<forall>u \<in> set (fst (post_register ext tbl uname pw)). 0 < user_id u"
  using assms next_id_positive [of tbl]
  by (auto simp: post_register_def db_run_insert_def logs_only_def
      split: sum.splits option.splits if_splits)



text \<open>
  C9. For every session (the absent one included), \<open>requireLogin\<close> lets the request pass
  exactly when the session resolves to a user id, and otherwise answers with the redirect
  to \<^verbatim>\<open>/login\<close>; so it does for the session of every token, the absent token included.
\<close>

theorem requireLogin_iff_resolved:
  "(requireLogin so = Next) = (\<exists>n. locals_user so = Some n) \<and>
   (requireLogin so = Respond (Redirect 302 ''/login'')) = (locals_user so = None) \<and>
   (requireLogin (Some (session_load store cookie)) = Next)
     = (\<exists>n. resolve store cookie = Some n) \<and>
   (requireLogin (Some (session_load store cookie)) = Respond (Redirect 302 ''/login''))
     = (resolve store cookie = None)"
  by (auto simp: requireLogin_def locals_user_def logged_in_def res_redirect_def resolve_def
      split: option.splits)

theorem requireLogin_iff_resolved_witness:
  "requireLogin (Some \<lparr>userId = Some 7\<rparr>) = Next \<and>
   requireLogin None = Respond (Redirect 302 ''/login'') \<and>
   requireLogin (Some (session_load Map.empty None)) = Respond (Redirect 302 ''/login'')"
  using requireLogin_iff_resolved [of "Some \<lparr>userId = Some 7\<rparr>" Map.empty None]
    requireLogin_iff_resolved [of None Map.empty None]
  by (simp add: locals_user_def logged_in_def resolve_def session_load_def empty_session_def)



text \<open>
  C2 (as the handler has it). A register request whose username or password is the empty
  string is not validated: the password is hashed, and when the hash is produced, the
  database works and the username is not yet in the table, the row is inserted and the
  requester is redirected to \<^verbatim>\<open>/login\<close>, as for any other request.
\<close>

theorem register_empty_fields_not_validated:
  assumes "uname = [] \<or> pw = []"
    and "bcrypt_hash ext pw saltRounds = Inr hash"
    and "fault ext = None"
    and "\<not> list_ex (\<lambda>u. username u = uname) tbl"
  shows "post_register ext tbl uname pw =
    (tbl @ [\<lparr>user_id = next_id tbl, username = uname, password = hash\<rparr>],
     responds (Redirect 302 ''/login''))"
  using assms by (simp add: post_register_def db_run_insert_def res_redirect_def)

theorem register_empty_fields_not_validated_witness:
  "post_register toy [alice] [] [] =
    ([alice, \<lparr>user_id = 2, username = [], password = ''$toy$''\<rparr>],
     responds (Redirect 302 ''/login''))"
proof -
  have empty: "([]::string) = [] \<or> ([]::string) = []"
    by simp
  have hashed: "bcrypt_hash toy [] saltRounds = Inr ''$toy$''"
    by (simp add: toy_def toy_hash_def)
  have no_fault: "fault toy = None"
    by (simp add: toy_def)
  have fresh: "\<not> list_ex (\<lambda>u. username u = []) [alice]"
    by (simp add: alice_def)
  have "next_id [alice] = 2"
    by (simp add: next_id_def alice_def)
  with register_empty_fields_not_validated [OF empty hashed no_fault fresh]
  show ?thesis by simp
qed

text \<open>
  The claim C2 as the spec has it fails: a register request with the empty username, on
  the empty table, is hashed, inserted and answered with the redirect to \<^verbatim>\<open>/login\<close>.
\<close>

theorem register_empty_username_counterexample:
  "post_register toy [] [] ''secret123'' =
    ([\<lparr>user_id = 1, username = [], password = ''$toy$secret123''\<rparr>],
     \<lparr>sent = Some (Redirect 302 ''/login''), cleared = [], console = []\<rparr>)"
  by (simp add: post_register_def db_run_insert_def toy_def toy_hash_def next_id_def
      responds_def res_redirect_def)

text \<open>
  A register request whose username is already in the table leaves the table as it was,
  whatever the hasher and the database do: the existing row is not overwritten and no row
  is added; the requester is not redirected to \<^verbatim>\<open>/login\<close>, and a line is written to the
  server's log.
\<close>

lemma register_duplicate_keeps_table:
  assumes "list_ex (\<lambda>u. username u = uname) tbl"
  shows "fst (post_register ext tbl uname pw) = tbl
    \<and> sent (snd (post_register ext tbl uname pw)) = None
    \<and> console (snd (post_register ext tbl uname pw)) \<noteq> []"
  using assms
  by (auto simp: post_register_def db_run_insert_def logs_only_def
      split: sum.splits option.splits)

text \<open>
  C3. Registering \<^verbatim>\<open>alice\<close> a second time, with a working hasher and database, leaves her
  row as it was, but the request is never answered: the handler writes the constraint's
  message to the server's log and returns. No response is sent, so neither a "username
  taken" message nor the registration view reaches the requester.
\<close>

theorem register_duplicate_unanswered:
  "post_register toy
      [\<lparr>user_id = 1, username = ''alice'', password = ''$toy$secret123''\<rparr>]
      ''alice'' ''other''
     = ([\<lparr>user_id = 1, username = ''alice'', password = ''$toy$secret123''\<rparr>],
        \<lparr>sent = None, cleared = [],
         console = [''SQLITE_CONSTRAINT: UNIQUE constraint failed: users.username'']\<rparr>)
   \<and> sent (snd (post_register toy
      [\<lparr>user_id = 1, username = ''alice'', password = ''$toy$secret123''\<rparr>]
      ''alice'' ''other'')) \<noteq> Some get_register"
  by (simp add: post_register_def db_run_insert_def toy_def toy_hash_def logs_only_def
      unique_failed_def)

text \<open>
  C4. When the database fails during a login, when it fails during a registration, and
  when the hasher fails during a registration, the handler writes the message to the
  server's log and ends: no response is sent. The handler of \<^verbatim>\<open>/logout\<close> and the callback
  of the comparison do answer on an error.
\<close>

theorem internal_failure_gets_no_response:
  "post_login (toy\<lparr>fault := Some ''SQLITE_BUSY: database is locked''\<rparr>) [alice] empty_session
      ''alice'' ''secret123''
     = (empty_session,
        \<lparr>sent = None, cleared = [], console = [''SQLITE_BUSY: database is locked'']\<rparr>) \<and>
   post_register (toy\<lparr>fault := Some ''SQLITE_BUSY: database is locked''\<rparr>) [] ''bob'' ''pw''
     = ([], \<lparr>sent = None, cleared = [], console = [''SQLITE_BUSY: database is locked'']\<rparr>) \<and>
   post_register (toy\<lparr>bcrypt_hash := \<lambda>d r. Inl ''data and salt arguments required''\<rparr>) []
      ''bob'' ''pw''
     = ([], \<lparr>sent = None, cleared = [], console = [''data and salt arguments required'']\<rparr>)"
  by (simp add: post_login_def post_register_def db_get_def db_run_insert_def toy_def
      toy_hash_def logs_only_def)

lemma registrations_ids_positive:
  "\<forall>u \<in> set tbl. 0 < user_id u \<Longrightarrow> \<forall>u \<in> set (registrations reqs tbl). 0 < user_id u"
proof (induction reqs arbitrary: tbl)
  case Nil
  then show ?case by simp
next
  case (Cons r reqs)
  obtain ext uname pw where r: "r = (ext, uname, pw)"
    by (cases r) auto
  have "\<forall>u \<in> set (fst (post_register ext tbl uname pw)). 0 < user_id u"
    using Cons.prems by (rule post_register_ids_positive)
  then show ?case
    unfolding r registrations.simps by (rule Cons.IH)
qed

lemma db_get_row_in_table: "db_get flt tbl name = Inr (Some usr) \<Longrightarrow> usr \<in> set tbl"
  by (auto simp: db_get_def find_Some_iff split: option.splits)

lemma login_resolves_nonzero_id:
  assumes "db_get (fault ext) tbl uname = Inr (Some usr)"
    and "bcrypt_compare ext pw (password usr) = Inr True"
    and "user_id usr \<noteq> 0"
  shows "locals_user (Some (fst (post_login ext tbl sess uname pw))) = Some (user_id usr)
    \<and> resolve (session_save store t (fst (post_login ext tbl sess uname pw))) (Some t)
        = Some (user_id usr)"
  using assms
  by (simp add: post_login_def result_truthy_def locals_user_def logged_in_def resolve_def
      session_save_def session_load_def)

text \<open>
  C6. On every table the code can build, whatever the register requests were, a login
  that finds the user's row and verifies the password writes the row's id to the session,
  and the session, stored under the request's token, resolves to that same id at once.
  The guards take the id 0 for false, and no id of such a table is 0.
\<close>

theorem login_then_resolve:
  assumes "db_get (fault ext) (registrations reqs []) uname = Inr (Some usr)"
    and "bcrypt_compare ext pw (password usr) = Inr True"
  shows "fst (post_login ext (registrations reqs []) sess uname pw)
        = sess\<lparr>userId := Some (user_id usr)\<rparr>
    \<and> locals_user (Some (fst (post_login ext (registrations reqs []) sess uname pw)))
        = Some (user_id usr)
    \<and> resolve (session_save store t
          (fst (post_login ext (registrations reqs []) sess uname pw))) (Some t)
        = Some (user_id usr)"
proof -
  have "\<forall>u \<in> set (registrations reqs []). 0 < user_id u"
    by (rule registrations_ids_positive) simp
  moreover have "usr \<in> set (registrations reqs [])"
    using assms(1) by (rule db_get_row_in_table)
  ultimately have nonzero: "user_id usr \<noteq> 0"
    by auto
  have created: "fst (post_login ext (registrations reqs []) sess uname pw)
      = sess\<lparr>userId := Some (user_id usr)\<rparr>"
    using assms by (simp add: post_login_def result_truthy_def)
  from created login_resolves_nonzero_id [OF assms nonzero] show ?thesis
    by blast
qed

theorem login_then_resolve_witness:
  "fst (post_login toy (registrations [(toy, ''alice'', ''secret123'')] []) empty_session
        ''alice'' ''secret123'')
     = empty_session\<lparr>userId := Some (user_id alice)\<rparr>
   \<and> locals_user (Some (fst (post_login toy
        (registrations [(toy, ''alice'', ''secret123'')] []) empty_session
        ''alice'' ''secret123'')))
     = Some (user_id alice)
   \<and> resolve (session_save Map.empty ''t0''
        (fst (post_login toy (registrations [(toy, ''alice'', ''secret123'')] [])
          empty_session ''alice'' ''secret123''))) (Some ''t0'')
     = Some (user_id alice)"
proof -
  have tbl: "registrations [(toy, ''alice'', ''secret123'')] [] = [alice]"
    by (simp add: post_register_def db_run_insert_def toy_def toy_hash_def next_id_def
        alice_def)
  have found: "db_get (fault toy) (registrations [(toy, ''alice'', ''secret123'')] []) ''alice''
      = Inr (Some alice)"
    unfolding tbl by (simp add: db_get_def toy_def alice_def)
  have verified: "bcrypt_compare toy ''secret123'' (password alice) = Inr True"
    by (simp add: toy_def toy_compare_def alice_def)
  show ?thesis
    by (rule login_then_resolve [OF found verified])
qed

lemma session_destroy_removes: "snd (session_destroy None store t) = store(t := None)"
  by (simp add: session_destroy_def)

lemma session_destroy_repeated:
  "((\<lambda>s. snd (session_destroy None s t)) ^^ Suc n) store = store(t := None)"
proof (induction n)
  case 0
  show ?case by (simp add: session_destroy_removes)
next
  case (Suc n)
  have "((\<lambda>s. snd (session_destroy None s t)) ^^ Suc (Suc n)) store
      = snd (session_destroy None (((\<lambda>s. snd (session_destroy None s t)) ^^ Suc n) store) t)"
    by simp
  also have "\<dots> = snd (session_destroy None (store(t := None)) t)"
    by (simp only: Suc.IH)
  also have "\<dots> = store(t := None)"
    by (simp add: session_destroy_removes)
  finally show ?case .
qed

text \<open>
  C7. After the destruction of a token's session the token resolves to no user, also
  through the handler of \<^verbatim>\<open>/logout\<close>; the destruction reports no error for any store,
  the token's session being present or not; a second destruction changes nothing and
  reports no error, and so does any number of them.
\<close>

theorem destroy_then_resolve_none:
  "resolve (snd (session_destroy None store t)) (Some t) = None
   \<and> fst (session_destroy None store t) = None
   \<and> session_destroy None (snd (session_destroy None store t)) t
       = session_destroy None store t
   \<and> ((\<lambda>s. snd (session_destroy None s t)) ^^ Suc n) store
       = snd (session_destroy None store t)
   \<and> resolve (fst (get_logout None store t)) (Some t) = None
   \<and> get_logout None (fst (get_logout None store t)) t = get_logout None store t"
proof -
  have "((\<lambda>s. snd (session_destroy None s t)) ^^ Suc n) store = store(t := None)"
    by (rule session_destroy_repeated)
  also have "\<dots> = snd (session_destroy None store t)"
    by (rule session_destroy_removes [symmetric])
  finally have repeated: "((\<lambda>s. snd (session_destroy None s t)) ^^ Suc n) store
      = snd (session_destroy None store t)" .
  have rest: "resolve (snd (session_destroy None store t)) (Some t) = None
   \<and> fst (session_destroy None store t) = None
   \<and> session_destroy None (snd (session_destroy None store t)) t
       = session_destroy None store t
   \<and> resolve (fst (get_logout None store t)) (Some t) = None
   \<and> get_logout None (fst (get_logout None store t)) t = get_logout None store t"
    by (simp add: session_destroy_def get_logout_def resolve_def session_load_def
        locals_user_def logged_in_def empty_session_def)
  from repeated rest show ?thesis
    by blast
qed

theorem destroy_then_resolve_none_witness:
  "resolve (snd (session_destroy None [''t0'' \<mapsto> \<lparr>userId = Some 1\<rparr>] ''t0'')) (Some ''t0'')
     = None
   \<and> resolve [''t0'' \<mapsto> \<lparr>userId = Some 1\<rparr>] (Some ''t0'') = Some 1
   \<and> fst (session_destroy None Map.empty ''t0'') = None"
  using destroy_then_resolve_none
      [where store = "[''t0'' \<mapsto> \<lparr>userId = Some 1\<rparr>]" and t = "''t0''" and n = 0]
    destroy_then_resolve_none [where store = Map.empty and t = "''t0''" and n = 0]
  by (simp add: resolve_def session_load_def locals_user_def logged_in_def)

text \<open>
  C8 (as the handler has it). When the destruction reports no error, also for a session
  already gone from the store, the handler of \<^verbatim>\<open>/logout\<close> removes the session, clears
  the cookie \<^verbatim>\<open>connect.sid\<close> and redirects with 302 to \<^verbatim>\<open>/login\<close>. When the destruction
  reports an error, the handler redirects with 302 to \<^verbatim>\<open>/\<close> and clears no cookie.
\<close>

theorem logout_redirects:
  "get_logout None store t =
     (store(t := None),
      \<lparr>sent = Some (Redirect 302 ''/login''), cleared = [''connect.sid''], console = []\<rparr>)
   \<and> get_logout (Some e) store t =
     (store, \<lparr>sent = Some (Redirect 302 ''/''), cleared = [], console = []\<rparr>)"
  by (simp add: get_logout_def session_destroy_def res_redirect_def responds_def)

theorem logout_redirects_witness:
  "sent (snd (get_logout None Map.empty ''t0'')) = Some (Redirect 302 ''/login'')
   \<and> cleared (snd (get_logout None Map.empty ''t0'')) = [''connect.sid'']
   \<and> fst (get_logout None Map.empty ''t0'') = Map.empty"
  using logout_redirects [where store = Map.empty and t = "''t0''" and e = "''gone''"]
  by simp

text \<open>
  The claim C8 as the spec has it fails when the destruction reports an error: the
  redirect goes to \<^verbatim>\<open>/\<close>, not to \<^verbatim>\<open>/login\<close>, and the cookie is not cleared.
\<close>

theorem logout_error_counterexample:
  "sent (snd (get_logout (Some ''store unavailable'') Map.empty ''t0''))
     = Some (Redirect 302 ''/'')
   \<and> sent (snd (get_logout (Some ''store unavailable'') Map.empty ''t0''))
     \<noteq> Some (Redirect 302 ''/login'')
   \<and> cleared (snd (get_logout (Some ''store unavailable'') Map.empty ''t0'')) = []"
  by (simp add: get_logout_def session_destroy_def res_redirect_def responds_def)

section \<open>The scenario of the specification\<close>

text \<open>
  Register \<^verbatim>\<open>alice\<close>; register her again; log in with a wrong password; log in with the
  right one; the stored session passes the guard; log out; the token is then denied.
\<close>

lemma scenario_register_login_logout:
  "post_register toy [] ''alice'' ''secret123'' = ([alice], responds (Redirect 302 ''/login''))
   \<and> post_register toy [alice] ''alice'' ''other'' = ([alice], logs_only unique_failed)
   \<and> post_login toy [alice] empty_session ''alice'' ''wrong''
       = (empty_session, responds invalid_credentials)
   \<and> post_login toy [alice] empty_session ''alice'' ''secret123''
       = (\<lparr>userId = Some 1\<rparr>, responds (Redirect 302 ''/''))
   \<and> requireLogin (Some (session_load (session_save Map.empty ''t0'' \<lparr>userId = Some 1\<rparr>)
        (Some ''t0''))) = Next
   \<and> requireLogin (Some (session_load
        (fst (get_logout None (session_save Map.empty ''t0'' \<lparr>userId = Some 1\<rparr>) ''t0''))
        (Some ''t0''))) = Respond (Redirect 302 ''/login'')"
  by (simp add: post_register_def post_login_def db_run_insert_def db_get_def toy_def
      toy_hash_def toy_compare_def alice_def next_id_def result_truthy_def empty_session_def
      res_redirect_def requireLogin_def logged_in_def session_load_def session_save_def
      get_logout_def session_destroy_def)

end
